theory Spec2Isabelle
  imports Main "HOL-Library.AList"
begin

section \<open>Data model\<close>

text \<open>
  The three schema classes of \<^verbatim>\<open>main.py\<close>. \<^verbatim>\<open>PrescriptionResponse\<close> declares the
  fields of \<^verbatim>\<open>FormData\<close> and an \<^verbatim>\<open>id\<close>; it is the record \<^verbatim>\<open>FormData\<close> extended by that
  field (named \<open>id'\<close>, since \<open>id\<close> is the identity function of HOL; \<open>note'\<close> likewise,
  \<open>note\<close> being a keyword).
\<close>

record Medicine =
  name :: string
  dosage :: string
  frequency :: string
  note' :: string

record FormData =
  drid :: int
  sendToValue :: string
  patientName :: string
  patientAge :: string
  patientDescription :: string
  currentDate :: string
  medicines :: "Medicine list"

record PrescriptionResponse = FormData +
  id' :: int

text \<open>
  The values the handlers pass around: what the store sends and receives (JSON: null,
  integers, strings, lists, objects) and \<^verbatim>\<open>Medicine\<close> objects, which the handlers put into
  a row before they build the response. A dictionary is an association list in
  insertion order; \<open>map_of\<close> reads it and \<open>AList.update\<close> assigns to a key.
\<close>

datatype pyval =
    PNone
  | PInt int
  | PStr string
  | PList "pyval list"
  | PDict "(string \<times> pyval) list"
  | PObj Medicine

type_synonym pydict = "(string \<times> pyval) list"

text \<open>
  Exceptions. \<open>HTTPException\<close> carries \<^verbatim>\<open>status_code\<close> and \<^verbatim>\<open>detail\<close>; the others are
  what the interpreter, the schema classes and the store client raise.
\<close>

datatype exn =
    HTTPException nat string
  | KeyError string
  | TypeError string
  | ValidationError string
  | AttributeError string
  | StoreError string

fun str_nat :: "nat \<Rightarrow> string" where
  "str_nat n =
     (if n < 10 then [''0123456789'' ! n]
      else str_nat (n div 10) @ [''0123456789'' ! (n mod 10)])"

declare str_nat.simps [simp del]

text \<open>
  \<^verbatim>\<open>str(e)\<close>. An \<open>HTTPException\<close> prints as its status code, a colon and its detail; a
  \<open>KeyError\<close> as the quoted key; the others as their message (for a validation error
  the model keeps only the name of the offending field, for an attribute error only
  the name of the missing attribute).
\<close>

fun str_exn :: "exn \<Rightarrow> string" where
  "str_exn (HTTPException status_code detail) = str_nat status_code @ '': '' @ detail"
| "str_exn (KeyError k) = [CHR 0x27] @ k @ [CHR 0x27]"
| "str_exn (TypeError msg) = msg"
| "str_exn (ValidationError field) = ''validation error for '' @ field"
| "str_exn (AttributeError a) = ''object has no attribute '' @ [CHR 0x27] @ a @ [CHR 0x27]"
| "str_exn (StoreError msg) = msg"

subsection \<open>Raising and catching\<close>

definition bind_exn :: "exn + 'a \<Rightarrow> ('a \<Rightarrow> exn + 'b) \<Rightarrow> exn + 'b" where
  "bind_exn r f = (case r of Inl e \<Rightarrow> Inl e | Inr v \<Rightarrow> f v)"

text \<open>A list comprehension whose body may raise: the first exception ends it.\<close>

fun map_exn :: "('a \<Rightarrow> exn + 'b) \<Rightarrow> 'a list \<Rightarrow> exn + 'b list" where
  "map_exn f [] = Inr []"
| "map_exn f (x # xs) =
     bind_exn (f x) (\<lambda>y. bind_exn (map_exn f xs) (\<lambda>ys. Inr (y # ys)))"

text \<open>
  \<^verbatim>\<open>except Exception as e: raise HTTPException(status_code=500, detail=f"An error occurred: {str(e)}")\<close>,
  the last clause of all four handlers. \<open>HTTPException\<close> is a subclass of
  \<open>Exception\<close>, so this clause catches it too.
\<close>

definition except_Exception :: "exn + 'a \<Rightarrow> exn + 'a" where
  "except_Exception r =
     (case r of
        Inl e \<Rightarrow> Inl (HTTPException 500 (''An error occurred: '' @ str_exn e))
      | Inr v \<Rightarrow> Inr v)"

text \<open>
  \<^verbatim>\<open>except HTTPException: raise\<close> before that clause, as \<^verbatim>\<open>get_prescription\<close> has it:
  an \<open>HTTPException\<close> passes unchanged.
\<close>

definition except_HTTPException_raise :: "exn + 'a \<Rightarrow> exn + 'a" where
  "except_HTTPException_raise r =
     (case r of
        Inl (HTTPException status_code detail) \<Rightarrow> Inl (HTTPException status_code detail)
      | _ \<Rightarrow> except_Exception r)"

subsection \<open>Schema classes: \<^verbatim>\<open>.dict()\<close> and construction from keywords\<close>

definition Medicine_dict :: "Medicine \<Rightarrow> pydict" where
  "Medicine_dict med =
     [(''name'', PStr (name med)), (''dosage'', PStr (dosage med)),
      (''frequency'', PStr (frequency med)), (''note'', PStr (note' med))]"

definition FormData_dict :: "FormData \<Rightarrow> pydict" where
  "FormData_dict form_data =
     [(''drid'', PInt (drid form_data)),
      (''sendToValue'', PStr (sendToValue form_data)),
      (''patientName'', PStr (patientName form_data)),
      (''patientAge'', PStr (patientAge form_data)),
      (''patientDescription'', PStr (patientDescription form_data)),
      (''currentDate'', PStr (currentDate form_data)),
      (''medicines'', PList (map (PDict \<circ> Medicine_dict) (medicines form_data)))]"

definition PrescriptionResponse_dict :: "PrescriptionResponse \<Rightarrow> pydict" where
  "PrescriptionResponse_dict p =
     (''id'', PInt (id' p)) # FormData_dict (FormData.truncate p)"

text \<open>
  A field of a schema class is read from the keywords by its name and accepted at its
  declared type; a missing key or a value of another type is a validation error, and
  keys that are no field are ignored. (The coercions between primitive types that the
  validation library may apply are not modelled.)
\<close>

definition str_field :: "pydict \<Rightarrow> string \<Rightarrow> exn + string" where
  "str_field kw k =
     (case map_of kw k of Some (PStr s) \<Rightarrow> Inr s | _ \<Rightarrow> Inl (ValidationError k))"

definition int_field :: "pydict \<Rightarrow> string \<Rightarrow> exn + int" where
  "int_field kw k =
     (case map_of kw k of Some (PInt i) \<Rightarrow> Inr i | _ \<Rightarrow> Inl (ValidationError k))"

definition Medicine_init :: "pydict \<Rightarrow> exn + Medicine" where
  "Medicine_init kw =
     bind_exn (str_field kw ''name'') (\<lambda>n.
     bind_exn (str_field kw ''dosage'') (\<lambda>d.
     bind_exn (str_field kw ''frequency'') (\<lambda>f.
     bind_exn (str_field kw ''note'') (\<lambda>t.
     Inr \<lparr>name = n, dosage = d, frequency = f, note' = t\<rparr>))))"

text \<open>An element of a \<^verbatim>\<open>List[Medicine]\<close> field: a \<^verbatim>\<open>Medicine\<close> object, or a dictionary of one.\<close>

fun Medicine_item :: "pyval \<Rightarrow> exn + Medicine" where
  "Medicine_item (PObj med) = Inr med"
| "Medicine_item (PDict kw) = Medicine_init kw"
| "Medicine_item _ = Inl (ValidationError ''medicines'')"

definition medicines_field :: "pydict \<Rightarrow> exn + Medicine list" where
  "medicines_field kw =
     (case map_of kw ''medicines'' of
        Some (PList items) \<Rightarrow> map_exn Medicine_item items
      | _ \<Rightarrow> Inl (ValidationError ''medicines''))"

definition PrescriptionResponse_init :: "pydict \<Rightarrow> exn + PrescriptionResponse" where
  "PrescriptionResponse_init kw =
     bind_exn (int_field kw ''id'') (\<lambda>i.
     bind_exn (int_field kw ''drid'') (\<lambda>d.
     bind_exn (str_field kw ''sendToValue'') (\<lambda>stv.
     bind_exn (str_field kw ''patientName'') (\<lambda>pn.
     bind_exn (str_field kw ''patientAge'') (\<lambda>pa.
     bind_exn (str_field kw ''patientDescription'') (\<lambda>pd.
     bind_exn (str_field kw ''currentDate'') (\<lambda>cd.
     bind_exn (medicines_field kw) (\<lambda>ms.
     Inr \<lparr>drid = d, sendToValue = stv, patientName = pn, patientAge = pa,
          patientDescription = pd, currentDate = cd, medicines = ms, id' = i\<rparr>))))))))"

subsection \<open>Interpreter operations the handlers use\<close>

text \<open>\<^verbatim>\<open>d[k]\<close>: a missing key raises.\<close>

definition getitem :: "pydict \<Rightarrow> string \<Rightarrow> exn + pyval" where
  "getitem d k = (case map_of d k of None \<Rightarrow> Inl (KeyError k) | Some v \<Rightarrow> Inr v)"

text \<open>
  \<^verbatim>\<open>for x in v\<close>: a list gives its elements, a dictionary its keys, a string its
  characters; nothing else can be iterated.
\<close>

fun iter :: "pyval \<Rightarrow> exn + pyval list" where
  "iter (PList xs) = Inr xs"
| "iter (PDict d) = Inr (map (PStr \<circ> fst) d)"
| "iter (PStr s) = Inr (map (\<lambda>c. PStr [c]) s)"
| "iter _ = Inl (TypeError ''object is not iterable'')"

text \<open>\<^verbatim>\<open>Medicine(**med)\<close>: \<^verbatim>\<open>med\<close> has to be a mapping.\<close>

fun Medicine_kwargs :: "pyval \<Rightarrow> exn + Medicine" where
  "Medicine_kwargs (PDict kw) = Medicine_init kw"
| "Medicine_kwargs _ = Inl (TypeError ''argument after ** must be a mapping'')"

text \<open>
  The two statements with which \<^verbatim>\<open>create_prescription\<close> (lines 82 and 84),
  \<^verbatim>\<open>get_prescriptions\<close> (lines 109 and 110) and \<^verbatim>\<open>get_prescription\<close> (lines 129 and 131)
  turn a row of the store into a response:
  \<^verbatim>\<open>row["medicines"] = [Medicine(**med) for med in row["medicines"]]\<close> and
  \<^verbatim>\<open>PrescriptionResponse(**row)\<close>.
\<close>

definition row_to_response :: "pydict \<Rightarrow> exn + PrescriptionResponse" where
  "row_to_response row =
     bind_exn (getitem row ''medicines'') (\<lambda>v.
     bind_exn (iter v) (\<lambda>items.
     bind_exn (map_exn Medicine_kwargs items) (\<lambda>meds.
     PrescriptionResponse_init (AList.update ''medicines'' (PList (map PObj meds)) row))))"

section \<open>The store client\<close>

text \<open>
  A request is built as the source builds it: \<^verbatim>\<open>supabase.table(name)\<close>, then at most
  one of \<^verbatim>\<open>.insert(row)\<close>, \<^verbatim>\<open>.select("*")\<close>, \<^verbatim>\<open>.delete()\<close>, then \<^verbatim>\<open>.eq(column, value)\<close>
  filters. \<^verbatim>\<open>.execute()\<close> sends it; it is a parameter of every handler, a function from
  the request and the state of the store to \<^verbatim>\<open>result.data\<close> (or the exception the call
  raises) and the state after it.
\<close>

datatype operation = Table | Select | Insert pydict | Delete

datatype request = Request string operation "(string \<times> pyval) list"

definition table_q :: "string \<Rightarrow> request" where
  "table_q t = Request t Table []"

fun select_q :: "request \<Rightarrow> request" where
  "select_q (Request t _ fs) = Request t Select fs"

fun insert_q :: "pydict \<Rightarrow> request \<Rightarrow> request" where
  "insert_q row (Request t _ fs) = Request t (Insert row) fs"

fun delete_q :: "request \<Rightarrow> request" where
  "delete_q (Request t _ fs) = Request t Delete fs"

fun eq_q :: "string \<Rightarrow> pyval \<Rightarrow> request \<Rightarrow> request" where
  "eq_q column v (Request t opn fs) = Request t opn (fs @ [(column, v)])"

type_synonym 's execute = "request \<Rightarrow> 's \<Rightarrow> (exn + pydict list) \<times> 's"

section \<open>The handlers\<close>

text \<open>Lines 69 and 70: the payload as a dictionary, its medicines as dictionaries.\<close>

definition prescription_data :: "FormData \<Rightarrow> pydict" where
  "prescription_data form_data =
     AList.update ''medicines''
       (PList (map (PDict \<circ> Medicine_dict) (medicines form_data)))
       (FormData_dict form_data)"

definition create_prescription ::
  "'s execute \<Rightarrow> FormData \<Rightarrow> 's \<Rightarrow> (exn + PrescriptionResponse) \<times> 's" where
  "create_prescription execute form_data s =
     (let (result, s') =
            execute (insert_q (prescription_data form_data) (table_q ''prescriptions'')) s
      in (except_Exception
            (bind_exn result (\<lambda>data.
               case data of
                 [] \<Rightarrow> Inl (HTTPException 500 ''Failed to store prescription'')
               | new_prescription # _ \<Rightarrow> row_to_response new_prescription)),
          s'))"

text \<open>
  Lines 95 to 99: the query of \<^verbatim>\<open>get_prescriptions\<close>. It starts from the table alone and
  names no operation (line 123 has \<^verbatim>\<open>.select("*")\<close>, line 95 has not). \<^verbatim>\<open>if drid:\<close> tests
  the truth value of an \<^verbatim>\<open>Optional[int]\<close>, and both \<^verbatim>\<open>None\<close> and \<^verbatim>\<open>0\<close> are false.
\<close>

definition prescriptions_query :: "int option \<Rightarrow> request" where
  "prescriptions_query drid_opt =
     (let query = table_q ''prescriptions''
      in case drid_opt of
           None \<Rightarrow> query
         | Some d \<Rightarrow> if d \<noteq> 0 then eq_q ''drid'' (PInt d) query else query)"

definition get_prescriptions ::
  "'s execute \<Rightarrow> int option \<Rightarrow> 's \<Rightarrow> (exn + PrescriptionResponse list) \<times> 's" where
  "get_prescriptions execute drid_opt s =
     (let (result, s') = execute (prescriptions_query drid_opt) s
      in (except_Exception
            (bind_exn result (\<lambda>data.
               case data of
                 [] \<Rightarrow> Inr []
               | _ \<Rightarrow> map_exn row_to_response data)),
          s'))"

text \<open>Line 123: the query of \<^verbatim>\<open>get_prescription\<close>.\<close>

definition select_by_id :: "int \<Rightarrow> request" where
  "select_by_id prescription_id =
     eq_q ''id'' (PInt prescription_id) (select_q (table_q ''prescriptions''))"

definition get_prescription ::
  "'s execute \<Rightarrow> int \<Rightarrow> 's \<Rightarrow> (exn + PrescriptionResponse) \<times> 's" where
  "get_prescription execute prescription_id s =
     (let (result, s') = execute (select_by_id prescription_id) s
      in (except_HTTPException_raise
            (bind_exn result (\<lambda>data.
               case data of
                 [] \<Rightarrow> Inl (HTTPException 404 ''Prescription not found'')
               | prescription # _ \<Rightarrow> row_to_response prescription)),
          s'))"

text \<open>Line 144: the query of \<^verbatim>\<open>delete_prescription\<close>.\<close>

definition delete_by_id :: "int \<Rightarrow> request" where
  "delete_by_id prescription_id =
     eq_q ''id'' (PInt prescription_id) (delete_q (table_q ''prescriptions''))"

definition delete_prescription ::
  "'s execute \<Rightarrow> int \<Rightarrow> 's \<Rightarrow> (exn + pydict) \<times> 's" where
  "delete_prescription execute prescription_id s =
     (let (result, s') = execute (delete_by_id prescription_id) s
      in (except_Exception
            (bind_exn result (\<lambda>data.
               case data of
                 [] \<Rightarrow> Inl (HTTPException 404 ''Prescription not found'')
               | _ \<Rightarrow> Inr [(''message'', PStr ''Prescription deleted successfully'')])),
          s'))"

section \<open>A model of the store\<close>

text \<open>
  Modelled from the spec: the state of the persistence store, a remote service that is
  no part of the source. One table: its rows in insertion order, and the next id to
  assign (the spec's data model has the store assign the \<^verbatim>\<open>id\<close> on creation, unique).
\<close>

record store =
  rows :: "pydict list"
  next_id :: int

text \<open>A row matches the filters when each filtered column holds the filter's value.\<close>

definition matches :: "(string \<times> pyval) list \<Rightarrow> pydict \<Rightarrow> bool" where
  "matches fs row = list_all (\<lambda>(column, v). map_of row column = Some v) fs"

text \<open>
  Modelled from the spec: what the persistence store answers to a request. The spec
  (external interfaces) describes a table-oriented service supporting insert, select
  (optionally filtered by equality on a named column) and delete (filtered by
  equality), each returning a sequence of affected or matching rows or an empty
  result. Insert stores the row under the next id and returns it with that id; delete
  removes the matching rows and returns them; select returns the matching rows. A
  request that names none of the three operations is outside that contract: what
  \<^verbatim>\<open>supabase.table(name)\<close> returns can neither be filtered nor executed, so the client
  raises an attribute error, for \<^verbatim>\<open>eq\<close> when a filter was asked for and for \<^verbatim>\<open>execute\<close>
  otherwise, and the store is not reached. The model has one table.
\<close>

fun store_execute :: "store execute" where
  "store_execute (Request t (Insert row) fs) s =
     (let new = AList.update ''id'' (PInt (next_id s)) row
      in (Inr [new], s\<lparr>rows := rows s @ [new], next_id := next_id s + 1\<rparr>))"
| "store_execute (Request t Delete fs) s =
     (Inr (filter (matches fs) (rows s)),
      s\<lparr>rows := filter (\<lambda>row. \<not> matches fs row) (rows s)\<rparr>)"
| "store_execute (Request t Select fs) s = (Inr (filter (matches fs) (rows s)), s)"
| "store_execute (Request t Table fs) s =
     (Inl (AttributeError (case fs of [] \<Rightarrow> ''execute'' | _ \<Rightarrow> ''eq'')), s)"

definition row_id :: "pydict \<Rightarrow> int option" where
  "row_id row = (case map_of row ''id'' of Some (PInt i) \<Rightarrow> Some i | _ \<Rightarrow> None)"

text \<open>
  The store's invariant: every row has an integer id below the next id to assign, and
  no two rows have the same id.
\<close>

definition store_inv :: "store \<Rightarrow> bool" where
  "store_inv s \<longleftrightarrow>
     (\<forall>row \<in> set (rows s). \<exists>i. row_id row = Some i \<and> i < next_id s) \<and>
     distinct (map row_id (rows s))"

definition empty_store :: store where
  "empty_store = \<lparr>rows = [], next_id = 1\<rparr>"

section \<open>Sample data\<close>

text \<open>
  The payload of the spec's creation scenario and a second one of doctor 0; the rows
  and stores that creating them gives; a store in which two rows have the same id; and
  a client that answers every request with no data.
\<close>

definition med1 :: Medicine where
  "med1 = \<lparr>name = ''Paracetamol'', dosage = ''500mg'', frequency = ''2x/day'', note' = ''after meals''\<rparr>"

definition form1 :: FormData where
  "form1 = \<lparr>drid = 1, sendToValue = ''pharmacy'', patientName = ''Jane Doe'', patientAge = ''34'',
     patientDescription = ''flu'', currentDate = ''2024-01-01'', medicines = [med1]\<rparr>"

definition form0 :: FormData where
  "form0 = form1\<lparr>drid := 0, patientName := ''John Roe''\<rparr>"

definition row1 :: pydict where
  "row1 = AList.update ''id'' (PInt 1) (prescription_data form1)"

definition row2 :: pydict where
  "row2 = AList.update ''id'' (PInt 2) (prescription_data form0)"

definition store1 :: store where
  "store1 = \<lparr>rows = [row1], next_id = 2\<rparr>"

definition store2 :: store where
  "store2 = \<lparr>rows = [row1, row2], next_id = 3\<rparr>"

definition dup_store :: store where
  "dup_store = \<lparr>rows = [row1, AList.update ''id'' (PInt 1) (prescription_data form0)], next_id = 2\<rparr>"

definition no_data_execute :: "unit execute" where
  "no_data_execute q s = (Inr [], s)"

section \<open>Basic facts\<close>

lemma bind_exn_Inl [simp]: "bind_exn (Inl e) f = Inl e"
  by (simp add: bind_exn_def)

lemma bind_exn_Inr [simp]: "bind_exn (Inr v) f = f v"
  by (simp add: bind_exn_def)

lemma except_Exception_Inr [simp]: "except_Exception (Inr v) = Inr v"
  by (simp add: except_Exception_def)

lemma except_Exception_Inl [simp]:
  "except_Exception (Inl e) = Inl (HTTPException 500 (''An error occurred: '' @ str_exn e))"
  by (simp add: except_Exception_def)

lemma except_HTTPException_raise_Inr [simp]: "except_HTTPException_raise (Inr v) = Inr v"
  by (simp add: except_HTTPException_raise_def)

lemma except_HTTPException_raise_HTTPException [simp]:
  "except_HTTPException_raise (Inl (HTTPException c d)) = Inl (HTTPException c d)"
  by (simp add: except_HTTPException_raise_def)

lemma str_nat_404: "str_nat 404 = ''404''"
  by (simp add: str_nat.simps)

lemma str_nat_500: "str_nat 500 = ''500''"
  by (simp add: str_nat.simps)

lemma Medicine_init_dict: "Medicine_init (Medicine_dict med) = Inr med"
  by (simp add: Medicine_init_def Medicine_dict_def str_field_def)

lemma map_exn_kwargs_dict:
  "map_exn Medicine_kwargs (map (PDict \<circ> Medicine_dict) meds) = Inr meds"
  by (induction meds) (simp_all add: Medicine_init_dict)

lemma map_exn_item_obj: "map_exn Medicine_item (map PObj meds) = Inr meds"
  by (induction meds) simp_all

lemma row_to_response_dict:
  "row_to_response (PrescriptionResponse_dict p) = Inr p"
  by (simp add: row_to_response_def PrescriptionResponse_dict_def FormData_dict_def getitem_def
      map_exn_kwargs_dict PrescriptionResponse_init_def int_field_def str_field_def
      medicines_field_def map_exn_item_obj FormData.truncate_def)

lemma row_to_response_inserted:
  "row_to_response (AList.update ''id'' (PInt n) (prescription_data form_data)) =
     Inr (FormData.extend form_data (PrescriptionResponse.fields n))"
  by (simp add: row_to_response_def prescription_data_def FormData_dict_def getitem_def
      map_exn_kwargs_dict PrescriptionResponse_init_def int_field_def str_field_def
      medicines_field_def map_exn_item_obj FormData.extend_def PrescriptionResponse.fields_def)

lemma matches_id: "matches [(''id'', PInt i)] row \<longleftrightarrow> map_of row ''id'' = Some (PInt i)"
  by (simp add: matches_def)

lemma row_id_eq: "row_id row = Some i \<longleftrightarrow> map_of row ''id'' = Some (PInt i)"
  by (auto simp: row_id_def split: option.splits pyval.splits)

lemma select_new_row:
  assumes "store_inv s"
  shows "filter (matches [(''id'', PInt (next_id s))])
           (rows s @ [AList.update ''id'' (PInt (next_id s)) row]) =
         [AList.update ''id'' (PInt (next_id s)) row]"
proof -
  have "\<not> matches [(''id'', PInt (next_id s))] r" if "r \<in> set (rows s)" for r
  proof -
    from assms that obtain i where "row_id r = Some i" and "i < next_id s"
      by (auto simp: store_inv_def)
    then show ?thesis
      by (auto simp: matches_id row_id_eq)
  qed
  then have "filter (matches [(''id'', PInt (next_id s))]) (rows s) = []"
    by (simp add: filter_empty_conv)
  then show ?thesis
    by (simp add: matches_id update_conv')
qed

lemmas sample_defs = form0_def form1_def med1_def row1_def row2_def store1_def store2_def
  dup_store_def empty_store_def no_data_execute_def

lemmas code_defs = create_prescription_def get_prescription_def get_prescriptions_def
  delete_prescription_def prescription_data_def prescriptions_query_def select_by_id_def
  delete_by_id_def table_q_def FormData_dict_def Medicine_dict_def row_to_response_def
  getitem_def PrescriptionResponse_init_def Medicine_init_def int_field_def str_field_def
  medicines_field_def matches_def

section \<open>The store model keeps its invariant\<close>

lemma row_id_update: "row_id (AList.update ''id'' (PInt n) row) = Some n"
  by (simp add: row_id_def update_conv')

lemma store_inv_empty: "store_inv empty_store"
  by (simp add: store_inv_def empty_store_def)

lemma store_inv_insert:
  assumes "store_inv s"
  shows "store_inv (snd (store_execute (Request t (Insert row) fs) s))"
proof -
  let ?new = "AList.update ''id'' (PInt (next_id s)) row"
  have old: "\<exists>i. row_id r = Some i \<and> i < next_id s" if "r \<in> set (rows s)" for r
    using assms that by (auto simp: store_inv_def)
  have fresh: "Some (next_id s) \<notin> set (map row_id (rows s))"
    using old by force
  have d: "distinct (map row_id (rows s))"
    using assms by (simp add: store_inv_def)
  have "\<exists>i. row_id r = Some i \<and> i < next_id s + 1" if "r \<in> set (rows s @ [?new])" for r
  proof (cases "r = ?new")
    case True
    then show ?thesis by (simp add: row_id_update)
  next
    case False
    with that have "r \<in> set (rows s)" by simp
    from old [OF this] show ?thesis by force
  qed
  moreover have "distinct (map row_id (rows s @ [?new]))"
    using d fresh by (simp add: row_id_update)
  ultimately show ?thesis
    by (simp add: store_inv_def Let_def)
qed

lemma store_inv_delete:
  assumes "store_inv s"
  shows "store_inv (snd (store_execute (Request t Delete fs) s))"
  using assms by (auto simp: store_inv_def distinct_map_filter)

lemma store_execute_inv:
  assumes "store_inv s"
  shows "store_inv (snd (store_execute q s))"
proof (cases q)
  case (Request t opn fs)
  show ?thesis
  proof (cases opn)
    case Table
    with Request assms show ?thesis by simp
  next
    case Select
    with Request assms show ?thesis by simp
  next
    case (Insert row)
    with Request store_inv_insert [OF assms] show ?thesis by simp
  next
    case Delete
    with Request store_inv_delete [OF assms] show ?thesis by simp
  qed
qed

lemma store1_reached: "snd (create_prescription store_execute form1 empty_store) = store1"
  by (simp add: sample_defs code_defs Let_def)

lemma store2_reached: "snd (create_prescription store_execute form0 store1) = store2"
  by (simp add: sample_defs code_defs Let_def)

section \<open>Create, then get by id\<close>

text \<open>
  C1. On a store that satisfies its invariant, \<^verbatim>\<open>create_prescription\<close> succeeds for every
  payload, and \<^verbatim>\<open>get_prescription\<close> with the id of the record it returned yields that
  same record: its id is the one the store assigned and all its other fields (drid,
  sendToValue, patientName, patientAge, patientDescription, currentDate and the
  medicines in their order) are those of the payload.
\<close>

theorem create_then_get_by_id:
  assumes "store_inv s"
  shows "\<exists>r s'. create_prescription store_execute form_data s = (Inr r, s') \<and>
           get_prescription store_execute (id' r) s' = (Inr r, s') \<and>
           id' r = next_id s \<and> FormData.truncate r = form_data"
proof -
  let ?new = "AList.update ''id'' (PInt (next_id s)) (prescription_data form_data)"
  let ?r = "FormData.extend form_data (PrescriptionResponse.fields (next_id s))"
  let ?s' = "s\<lparr>rows := rows s @ [?new], next_id := next_id s + 1\<rparr>"
  have c: "create_prescription store_execute form_data s = (Inr ?r, ?s')"
    by (simp add: create_prescription_def table_q_def Let_def row_to_response_inserted
        )
  have i: "id' ?r = next_id s"
    by (simp add: FormData.extend_def PrescriptionResponse.fields_def)
  have t: "FormData.truncate ?r = form_data"
    by (simp add: FormData.extend_def FormData.truncate_def PrescriptionResponse.fields_def)
  have sel: "store_execute (select_by_id (next_id s)) ?s' = (Inr [?new], ?s')"
    using select_new_row [OF assms, of "prescription_data form_data"]
    by (simp add: select_by_id_def table_q_def)
  have g: "get_prescription store_execute (next_id s) ?s' = (Inr ?r, ?s')"
    by (simp add: get_prescription_def sel row_to_response_inserted)
  from c g i t show ?thesis by simp
qed

theorem create_then_get_by_id_witness:
  "store_inv empty_store \<and>
   (\<exists>r s'. create_prescription store_execute form1 empty_store = (Inr r, s') \<and>
           get_prescription store_execute (id' r) s' = (Inr r, s') \<and>
           id' r = next_id empty_store \<and> FormData.truncate r = form1)"
proof -
  have h: "store_inv empty_store"
    by (simp add: store_inv_def empty_store_def)
  show ?thesis
    using h create_then_get_by_id [OF h, of form1] by simp
qed

section \<open>Deleting an id that is not there\<close>

lemma delete_prescription_no_rows:
  assumes "fst (execute (delete_by_id i) s) = Inr []"
  shows "fst (delete_prescription execute i s) =
           Inl (HTTPException 500 ''An error occurred: 404: Prescription not found'')"
  using assms by (simp add: delete_prescription_def split_beta str_nat_404)

lemma delete_prescription_never_404:
  "fst (delete_prescription execute i s) \<noteq> Inl (HTTPException 404 d)"
  by (cases "fst (execute (delete_by_id i) s)")
     (simp_all add: delete_prescription_def split_beta split: list.splits)

text \<open>
  C2. The claim is that \<^verbatim>\<open>delete_prescription\<close> answers 404 when the store reports no
  rows. The handler raises \<open>HTTPException 404\<close> inside its \<^verbatim>\<open>try\<close>, and its only
  \<^verbatim>\<open>except\<close> clause catches it and raises \<open>HTTPException 500\<close> instead
  (\<^verbatim>\<open>get_prescription\<close> has \<^verbatim>\<open>except HTTPException: raise\<close> before that clause;
  \<^verbatim>\<open>delete_prescription\<close> has not). Deleting id 1 from the empty store answers 500.
\<close>

theorem delete_absent_id_raises_500:
  "delete_prescription store_execute 1 empty_store =
     (Inl (HTTPException 500 ''An error occurred: 404: Prescription not found''), empty_store)"
  by (simp add: sample_defs code_defs str_nat_404)

section \<open>Listing\<close>

text \<open>
  The request of \<^verbatim>\<open>get_prescriptions\<close> names no operation, whatever the doctor id, and
  the store model refuses it: the handler answers 500 for every doctor id and every
  store.
\<close>

lemma prescriptions_query_names_no_operation:
  "\<exists>fs. prescriptions_query drid_opt = Request ''prescriptions'' Table fs"
  by (cases drid_opt) (auto simp: prescriptions_query_def table_q_def Let_def)

lemma get_prescriptions_store_raises_500:
  "\<exists>detail. get_prescriptions store_execute drid_opt s = (Inl (HTTPException 500 detail), s)"
proof -
  obtain fs where "prescriptions_query drid_opt = Request ''prescriptions'' Table fs"
    using prescriptions_query_names_no_operation by blast
  then show ?thesis
    by (simp add: get_prescriptions_def)
qed

text \<open>
  Lines 103 and 104 on their own: had the client answered the request with no rows, the
  handler would return the empty list.
\<close>

lemma get_prescriptions_no_rows:
  assumes "fst (execute (prescriptions_query drid_opt) s) = Inr []"
  shows "fst (get_prescriptions execute drid_opt s) = Inr []"
  using assms by (simp add: get_prescriptions_def split_beta)

text \<open>
  C3. The claim is that a supplied doctor id restricts the list to the records of that
  doctor, also when it is 0. \<^verbatim>\<open>if drid:\<close> is false for 0: the request built for
  \<^verbatim>\<open>drid = 0\<close> is the request built for no doctor id, it has no filter on \<^verbatim>\<open>drid\<close>, and
  with any store client \<^verbatim>\<open>get_prescriptions\<close> answers \<^verbatim>\<open>drid = 0\<close> exactly as it answers
  no doctor id. A nonzero doctor id does get the filter.
\<close>

theorem list_drid_zero_not_filtered:
  "prescriptions_query (Some 0) = prescriptions_query None \<and>
   prescriptions_query (Some 0) \<noteq> eq_q ''drid'' (PInt 0) (table_q ''prescriptions'') \<and>
   prescriptions_query (Some 1) = eq_q ''drid'' (PInt 1) (table_q ''prescriptions'') \<and>
   get_prescriptions execute (Some 0) s = get_prescriptions execute None s"
  by (simp add: get_prescriptions_def prescriptions_query_def table_q_def)

text \<open>
  C6. The claim is that listing returns an empty sequence when no record matches. The
  request is built from the table alone, without \<^verbatim>\<open>.select("*")\<close>, and is refused: asking
  for the prescriptions of doctor 2 on the store that holds one prescription of doctor
  1 answers 500, not the empty list.
\<close>

theorem list_no_match_raises_500:
  "get_prescriptions store_execute (Some 2) store1 =
     (Inl (HTTPException 500 (''An error occurred: '' @ str_exn (AttributeError ''eq''))),
      store1)"
  by (simp add: get_prescriptions_def prescriptions_query_def table_q_def)

section \<open>Getting an id that is not there\<close>

lemma get_prescription_no_rows:
  assumes "fst (execute (select_by_id i) s) = Inr []"
  shows "fst (get_prescription execute i s) = Inl (HTTPException 404 ''Prescription not found'')"
  using assms by (simp add: get_prescription_def split_beta)

lemma select_absent_id:
  assumes "Some i \<notin> set (map row_id (rows s))"
  shows "filter (matches [(''id'', PInt i)]) (rows s) = []"
proof -
  have "\<not> matches [(''id'', PInt i)] r" if "r \<in> set (rows s)" for r
  proof
    assume "matches [(''id'', PInt i)] r"
    then have "row_id r = Some i"
      by (simp add: matches_id row_id_eq)
    with that have "Some i \<in> set (map row_id (rows s))"
      by force
    with assms show False
      by simp
  qed
  then show ?thesis
    by (simp add: filter_empty_conv)
qed

lemma select_after_delete:
  "filter (matches fs) (filter (\<lambda>row. \<not> matches fs row) rs) = []"
  by (simp add: filter_empty_conv)

text \<open>
  C4. \<^verbatim>\<open>get_prescription\<close> raises \<open>HTTPException 404\<close> whenever the store returns no row for
  the id (any client); on the store model it does so for every id that no row has, and
  for every id right after \<^verbatim>\<open>delete_prescription\<close> of that id, whatever the store held.
\<close>

theorem get_absent_id_not_found:
  "(fst (execute (select_by_id i) t) = Inr [] \<longrightarrow>
      fst (get_prescription execute i t) = Inl (HTTPException 404 ''Prescription not found'')) \<and>
   (Some i \<notin> set (map row_id (rows s)) \<longrightarrow>
      get_prescription store_execute i s =
        (Inl (HTTPException 404 ''Prescription not found''), s)) \<and>
   fst (get_prescription store_execute i (snd (delete_prescription store_execute i s))) =
     Inl (HTTPException 404 ''Prescription not found'')"
proof (intro conjI impI)
  assume "fst (execute (select_by_id i) t) = Inr []"
  then show "fst (get_prescription execute i t) =
      Inl (HTTPException 404 ''Prescription not found'')"
    by (rule get_prescription_no_rows)
next
  assume "Some i \<notin> set (map row_id (rows s))"
  then have "filter (matches [(''id'', PInt i)]) (rows s) = []"
    by (rule select_absent_id)
  then show "get_prescription store_execute i s =
      (Inl (HTTPException 404 ''Prescription not found''), s)"
    by (simp add: get_prescription_def select_by_id_def table_q_def)
next
  let ?s' = "snd (delete_prescription store_execute i s)"
  have "rows ?s' = filter (\<lambda>row. \<not> matches [(''id'', PInt i)] row) (rows s)"
    by (simp add: delete_prescription_def delete_by_id_def table_q_def)
  then have "fst (store_execute (select_by_id i) ?s') = Inr []"
    by (simp add: select_by_id_def table_q_def select_after_delete)
  then show "fst (get_prescription store_execute i ?s') =
      Inl (HTTPException 404 ''Prescription not found'')"
    by (rule get_prescription_no_rows)
qed

theorem get_absent_id_not_found_witness:
  "fst (store_execute (select_by_id 2) store1) = Inr [] \<and>
   fst (get_prescription store_execute 2 store1) =
     Inl (HTTPException 404 ''Prescription not found'') \<and>
   Some 2 \<notin> set (map row_id (rows store1)) \<and>
   get_prescription store_execute 2 store1 =
     (Inl (HTTPException 404 ''Prescription not found''), store1) \<and>
   fst (get_prescription store_execute 1 (snd (delete_prescription store_execute 1 store1))) =
     Inl (HTTPException 404 ''Prescription not found'')"
proof -
  have a: "Some 2 \<notin> set (map row_id (rows store1))"
    by (simp add: sample_defs code_defs row_id_def)
  have b: "fst (store_execute (select_by_id 2) store1) = Inr []"
    by (simp add: sample_defs code_defs)
  show ?thesis
    using a b get_absent_id_not_found [of store_execute 2 store1 store1]
      get_absent_id_not_found [of store_execute 1 store1 store1]
    by simp
qed

section \<open>Round trip through the wire shape\<close>

text \<open>
  C5. A \<^verbatim>\<open>PrescriptionResponse\<close> written as a dictionary (its medicines as nested
  dictionaries) and read back by the two statements the handlers use gives the same
  record; so does a single \<^verbatim>\<open>Medicine\<close>, and a list of medicines comes back in its
  order.
\<close>

theorem wire_round_trip:
  "row_to_response (PrescriptionResponse_dict p) = Inr p \<and>
   Medicine_kwargs (PDict (Medicine_dict med)) = Inr med \<and>
   map_exn Medicine_kwargs (map (PDict \<circ> Medicine_dict) meds) = Inr meds"
  by (simp add: row_to_response_dict Medicine_init_dict map_exn_kwargs_dict)

section \<open>An insert that returns no data\<close>

text \<open>
  C7. When the store returns no data for the insert, \<^verbatim>\<open>create_prescription\<close> raises
  \<open>HTTPException 500\<close> and returns no record.
\<close>

theorem create_no_data_raises_500:
  assumes "fst (execute (insert_q (prescription_data form_data) (table_q ''prescriptions'')) s)
             = Inr []"
  shows "fst (create_prescription execute form_data s) =
           Inl (HTTPException 500 ''An error occurred: 500: Failed to store prescription'')"
  using assms by (simp add: create_prescription_def split_beta str_nat_500)

theorem create_no_data_raises_500_witness:
  "fst (no_data_execute (insert_q (prescription_data form1) (table_q ''prescriptions'')) ())
     = Inr [] \<and>
   fst (create_prescription no_data_execute form1 ()) =
     Inl (HTTPException 500 ''An error occurred: 500: Failed to store prescription'')"
proof -
  have h: "fst (no_data_execute (insert_q (prescription_data form1) (table_q ''prescriptions'')) ())
     = Inr []"
    by (simp add: no_data_execute_def)
  show ?thesis
    using h create_no_data_raises_500 [of no_data_execute form1 "()"] by simp
qed

section \<open>More than one row, and the body of a successful delete\<close>

text \<open>
  C9. When the store returns one row or more for the id, \<^verbatim>\<open>get_prescription\<close> answers as
  if it had returned the first row alone, and returns the prescription built from that
  row if one can be built.
\<close>

theorem get_uses_first_row:
  assumes "fst (execute (select_by_id i) s) = Inr (row # rest)"
  shows "fst (get_prescription execute i s) =
           fst (get_prescription (\<lambda>q t. (Inr [row], t)) i s) \<and>
         (\<forall>p. row_to_response row = Inr p \<longrightarrow> fst (get_prescription execute i s) = Inr p)"
  using assms by (simp add: get_prescription_def split_beta)

theorem get_uses_first_row_witness:
  "fst (store_execute (select_by_id 1) dup_store) =
     Inr [row1, AList.update ''id'' (PInt 1) (prescription_data form0)] \<and>
   row_to_response row1 = Inr (FormData.extend form1 (PrescriptionResponse.fields 1)) \<and>
   fst (get_prescription store_execute 1 dup_store) =
     Inr (FormData.extend form1 (PrescriptionResponse.fields 1))"
proof -
  have h: "fst (store_execute (select_by_id 1) dup_store) =
     Inr (row1 # [AList.update ''id'' (PInt 1) (prescription_data form0)])"
    by (simp add: sample_defs code_defs)
  have r: "row_to_response row1 = Inr (FormData.extend form1 (PrescriptionResponse.fields 1))"
    by (simp add: row1_def row_to_response_inserted)
  show ?thesis
    using h r get_uses_first_row [of store_execute 1 dup_store row1
        "[AList.update ''id'' (PInt 1) (prescription_data form0)]"]
    by blast
qed

text \<open>
  C10. A successful \<^verbatim>\<open>delete_prescription\<close> returns the message
  \<^verbatim>\<open>Prescription deleted successfully\<close> and nothing else, and it succeeds so whenever
  the store reports at least one deleted row, whatever and however many they are.
\<close>

theorem delete_success_body:
  "(fst (delete_prescription execute i s) = Inr body \<longrightarrow>
      body = [(''message'', PStr ''Prescription deleted successfully'')]) \<and>
   (fst (execute (delete_by_id i) s) = Inr (row # rest) \<longrightarrow>
      fst (delete_prescription execute i s) =
        Inr [(''message'', PStr ''Prescription deleted successfully'')])"
proof (intro conjI impI)
  assume a: "fst (delete_prescription execute i s) = Inr body"
  show "body = [(''message'', PStr ''Prescription deleted successfully'')]"
  proof (cases "fst (execute (delete_by_id i) s)")
    case (Inl e)
    with a show ?thesis
      by (simp add: delete_prescription_def split_beta)
  next
    case (Inr data)
    with a show ?thesis
      by (cases data) (simp_all add: delete_prescription_def split_beta)
  qed
next
  assume "fst (execute (delete_by_id i) s) = Inr (row # rest)"
  then show "fst (delete_prescription execute i s) =
      Inr [(''message'', PStr ''Prescription deleted successfully'')]"
    by (simp add: delete_prescription_def split_beta)
qed

theorem delete_success_body_witness:
  "fst (store_execute (delete_by_id 1) dup_store) =
     Inr [row1, AList.update ''id'' (PInt 1) (prescription_data form0)] \<and>
   fst (delete_prescription store_execute 1 dup_store) =
     Inr [(''message'', PStr ''Prescription deleted successfully'')] \<and>
   fst (store_execute (delete_by_id 1) store1) = Inr [row1] \<and>
   fst (delete_prescription store_execute 1 store1) =
     Inr [(''message'', PStr ''Prescription deleted successfully'')]"
proof -
  have h: "fst (store_execute (delete_by_id 1) dup_store) =
     Inr [row1, AList.update ''id'' (PInt 1) (prescription_data form0)]"
    by (simp add: sample_defs code_defs)
  have k: "fst (store_execute (delete_by_id 1) store1) = Inr [row1]"
    by (simp add: sample_defs code_defs)
  show ?thesis
    using h k
      delete_success_body [of store_execute 1 dup_store "[]" row1
        "[AList.update ''id'' (PInt 1) (prescription_data form0)]"]
      delete_success_body [of store_execute 1 store1 "[]" row1 "[]"]
    by blast
qed

section \<open>The status codes the handlers raise\<close>

text \<open>
  \<^verbatim>\<open>create_prescription\<close>, \<^verbatim>\<open>get_prescriptions\<close> and \<^verbatim>\<open>delete_prescription\<close> end in
  \<^verbatim>\<open>except Exception\<close> alone: whatever they raise leaves as status 500.
\<close>

lemma except_Exception_raises_500:
  "except_Exception r = Inl e \<Longrightarrow> \<exists>detail. e = HTTPException 500 detail"
  by (cases r) auto

lemma create_prescription_raises_500:
  "fst (create_prescription execute form_data s) = Inl e \<Longrightarrow>
     \<exists>detail. e = HTTPException 500 detail"
  by (auto simp: create_prescription_def split_beta dest: except_Exception_raises_500)

lemma get_prescriptions_raises_500:
  "fst (get_prescriptions execute drid_opt s) = Inl e \<Longrightarrow>
     \<exists>detail. e = HTTPException 500 detail"
  by (auto simp: get_prescriptions_def split_beta dest: except_Exception_raises_500)

lemma delete_prescription_raises_500:
  "fst (delete_prescription execute i s) = Inl e \<Longrightarrow>
     \<exists>detail. e = HTTPException 500 detail"
  by (auto simp: delete_prescription_def split_beta dest: except_Exception_raises_500)

text \<open>
  \<^verbatim>\<open>get_prescription\<close> is the one handler that can answer 404: building a response from a
  row never raises an \<open>HTTPException\<close>, so unless the store client itself raises one, the
  handler raises the 404 of the empty result or a 500.
\<close>

lemma bind_exn_Inl_cases:
  assumes "bind_exn r f = Inl e"
  obtains "r = Inl e" | v where "r = Inr v" and "f v = Inl e"
  using assms by (cases r) auto

lemma str_field_raises: "str_field kw k = Inl e \<Longrightarrow> e = ValidationError k"
  by (auto simp: str_field_def split: option.splits pyval.splits)

lemma int_field_raises: "int_field kw k = Inl e \<Longrightarrow> e = ValidationError k"
  by (auto simp: int_field_def split: option.splits pyval.splits)

lemma Medicine_init_raises: "Medicine_init kw = Inl e \<Longrightarrow> \<exists>field. e = ValidationError field"
  unfolding Medicine_init_def
  by (auto elim!: bind_exn_Inl_cases dest: str_field_raises)

lemma Medicine_kwargs_raises:
  "Medicine_kwargs v = Inl e \<Longrightarrow> e \<noteq> HTTPException c d"
  by (cases v) (auto dest: Medicine_init_raises)

lemma Medicine_item_raises:
  "Medicine_item v = Inl e \<Longrightarrow> e \<noteq> HTTPException c d"
  by (cases v) (auto dest: Medicine_init_raises)

lemma map_exn_raises:
  "map_exn f xs = Inl e \<Longrightarrow> \<exists>x \<in> set xs. f x = Inl e"
  by (induction xs) (auto elim!: bind_exn_Inl_cases)

lemma iter_raises: "iter v = Inl e \<Longrightarrow> e \<noteq> HTTPException c d"
  by (cases v) auto

lemma getitem_raises: "getitem row k = Inl e \<Longrightarrow> e = KeyError k"
  by (auto simp: getitem_def split: option.splits)

lemma medicines_field_raises:
  "medicines_field kw = Inl e \<Longrightarrow> e \<noteq> HTTPException c d"
  by (auto simp: medicines_field_def split: option.splits pyval.splits
      dest!: map_exn_raises dest: Medicine_item_raises)

lemma PrescriptionResponse_init_raises:
  "PrescriptionResponse_init kw = Inl e \<Longrightarrow> e \<noteq> HTTPException c d"
  unfolding PrescriptionResponse_init_def
  by (auto elim!: bind_exn_Inl_cases
      dest: str_field_raises int_field_raises medicines_field_raises)

lemma row_to_response_raises:
  "row_to_response row = Inl e \<Longrightarrow> e \<noteq> HTTPException c d"
  unfolding row_to_response_def
  by (auto elim!: bind_exn_Inl_cases
      dest: getitem_raises iter_raises PrescriptionResponse_init_raises
      dest!: map_exn_raises dest: Medicine_kwargs_raises)

lemma get_prescription_raises_404_or_500:
  assumes "fst (get_prescription execute i s) = Inl e"
    and "\<And>c d. fst (execute (select_by_id i) s) \<noteq> Inl (HTTPException c d)"
  shows "e = HTTPException 404 ''Prescription not found'' \<or>
         (\<exists>detail. e = HTTPException 500 detail)"
proof (cases "fst (execute (select_by_id i) s)")
  case (Inl x)
  with assms(2) have "\<And>c d. x \<noteq> HTTPException c d"
    by auto
  with Inl assms(1) show ?thesis
    by (cases x)
       (auto simp: get_prescription_def split_beta except_HTTPException_raise_def)
next
  case (Inr data)
  show ?thesis
  proof (cases data)
    case Nil
    with Inr assms(1) show ?thesis
      by (simp add: get_prescription_def split_beta)
  next
    case (Cons row rest)
    show ?thesis
    proof (cases "row_to_response row")
      case (Inl x)
      then have "\<And>c d. x \<noteq> HTTPException c d"
        by (auto dest: row_to_response_raises)
      with Inl Inr Cons assms(1) show ?thesis
        by (cases x)
           (auto simp: get_prescription_def split_beta except_HTTPException_raise_def)
    next
      case (Inr p)
      with \<open>fst (execute (select_by_id i) s) = Inr data\<close> Cons assms(1) show ?thesis
        by (simp add: get_prescription_def split_beta)
    qed
  qed
qed

end
